theory Spec2Isabelle
  imports Complex_Main
begin

section \<open>The news reader: feed, article resolution, summary, speech\<close>

text \<open>
  A shallow embedding of \<^verbatim>\<open>ai_news.py\<close>. The program is sequential glue over four
  libraries (requests, bs4, openai, playsound). Their answers are parameters of the
  model, collected in the record \<open>world\<close>; every call the program makes to them is
  written to a trace of events, in program order, whether the call succeeds or raises.
  A Python exception is a value: every function that can raise returns the events it
  caused together with either the exception (\<open>Inl\<close>) or its result (\<open>Inr\<close>).
  A library answers a call from its arguments alone: within one run the same request
  gets the same answer.
\<close>

subsection \<open>Exceptions, events and sequencing\<close>

text \<open>
  The two exception classes the program's own expressions raise are constructors:
  attribute access on \<^verbatim>\<open>None\<close> and indexing a list out of range. Any other
  exception class (raised inside a library) is carried by its name.
\<close>

datatype exn = AttributeError | IndexError | Exception string

type_synonym dict = "(string \<times> string) list"

datatype client = OpenAI (api_key: string)

record chat_request =
  rq_model :: string
  rq_messages :: "dict list"
  rq_temperature :: rat
  rq_n :: int

record speech_request =
  sp_model :: string
  sp_voice :: string
  sp_input :: string

datatype event =
    RequestsGet string int
  | Print string
  | ChatCompletionsCreate chat_request
  | AudioSpeechCreate speech_request
  | StreamToFile "string list"
  | Sleep rat
  | Playsound string

type_synonym 'a io = "event list \<times> (exn + 'a)"

definition return_io :: "'a \<Rightarrow> 'a io" where
  "return_io x = ([], Inr x)"

definition raise :: "exn \<Rightarrow> 'a io" where
  "raise e = ([], Inl e)"

definition call :: "event \<Rightarrow> exn + 'a \<Rightarrow> 'a io" where
  "call ev r = ([ev], r)"

definition after :: "event list \<Rightarrow> 'a io \<Rightarrow> 'a io" where
  "after tr m = (tr @ fst m, snd m)"

definition bind_io :: "'a io \<Rightarrow> ('a \<Rightarrow> 'b io) \<Rightarrow> 'b io" where
  "bind_io m f = (case snd m of Inl e \<Rightarrow> (fst m, Inl e) | Inr x \<Rightarrow> after (fst m) (f x))"

definition lift :: "exn + 'a \<Rightarrow> 'a io" where
  "lift r = ([], r)"

subsection \<open>Parsed documents (bs4)\<close>

text \<open>
  A parsed document is a tree of tags and strings. \<open>find_all_bs\<close> is \<^verbatim>\<open>find_all(name)\<close>:
  every descendant tag of that name, in document order. \<open>find_bs\<close> is \<^verbatim>\<open>find(name)\<close>
  and the attribute access \<^verbatim>\<open>tag.name\<close>: the first such descendant, or \<^verbatim>\<open>None\<close>.
  \<open>get_text\<close> is \<^verbatim>\<open>get_text()\<close> and \<^verbatim>\<open>.text\<close>: the strings below the tag, joined.
\<close>

datatype node = NavigableString string | Tag string "node list"

fun descendants :: "node \<Rightarrow> node list" where
  "descendants (NavigableString s) = []"
| "descendants (Tag nm cs) = concat (map (\<lambda>c. c # descendants c) cs)"

fun get_text :: "node \<Rightarrow> string" where
  "get_text (NavigableString s) = s"
| "get_text (Tag nm cs) = concat (map get_text cs)"

fun is_tag :: "string \<Rightarrow> node \<Rightarrow> bool" where
  "is_tag nm (NavigableString s) = False"
| "is_tag nm (Tag nm' cs) = (nm' = nm)"

definition find_all_bs :: "node \<Rightarrow> string \<Rightarrow> node list" where
  "find_all_bs nd nm = filter (is_tag nm) (descendants nd)"

definition find_bs :: "node \<Rightarrow> string \<Rightarrow> node option" where
  "find_bs nd nm = (case find_all_bs nd nm of [] \<Rightarrow> None | t # ts \<Rightarrow> Some t)"

text \<open>\<^verbatim>\<open>x.text\<close> where \<^verbatim>\<open>x\<close> may be \<^verbatim>\<open>None\<close>, and \<^verbatim>\<open>xs[i]\<close> for \<^verbatim>\<open>i >= 0\<close>.\<close>

definition text_of :: "node option \<Rightarrow> exn + string" where
  "text_of x = (case x of None \<Rightarrow> Inl AttributeError | Some t \<Rightarrow> Inr (get_text t))"

definition getitem :: "'a list \<Rightarrow> nat \<Rightarrow> exn + 'a" where
  "getitem xs i = (if i < length xs then Inr (xs ! i) else Inl IndexError)"

subsection \<open>The libraries and the environment\<close>

datatype chat_message = ChatCompletionMessage (content: string)
datatype choice = Choice (message: chat_message)
datatype chat_completion = ChatCompletion (choices: "choice list")

text \<open>
  \<open>OPENAI_API_KEY\<close> is the constant of the module \<^verbatim>\<open>constants\<close>, which is not part of
  the sources; \<open>file_parent\<close> is \<^verbatim>\<open>Path(__file__).parent\<close>, as its list of parts.
  The audio returned by the speech endpoint is its bytes.
\<close>

record world =
  OPENAI_API_KEY :: string
  file_parent :: "string list"
  requests_get :: "string \<Rightarrow> int \<Rightarrow> exn + string"
  bsoup :: "string \<Rightarrow> string \<Rightarrow> exn + node"
  chat_completions_create :: "client \<Rightarrow> chat_request \<Rightarrow> exn + chat_completion"
  audio_speech_create :: "client \<Rightarrow> speech_request \<Rightarrow> exn + string"
  stream_to_file :: "string \<Rightarrow> string list \<Rightarrow> exn + unit"
  playsound :: "string \<Rightarrow> exn + unit"

subsection \<open>News and BBCNews\<close>

record News =
  url :: string

definition News_init :: "string \<Rightarrow> News" where
  "News_init u = \<lparr>url = u\<rparr>"

definition BBCNews_init :: News where
  "BBCNews_init = News_init ''http://feeds.bbci.co.uk/news/rss.xml''"

definition News_get_soup :: "world \<Rightarrow> string \<Rightarrow> string \<Rightarrow> node io" where
  "News_get_soup w u features =
     bind_io (call (RequestsGet u 10) (requests_get w u 10)) (\<lambda>response_text.
       lift (bsoup w response_text features))"

definition News_get_body :: "world \<Rightarrow> string \<Rightarrow> string \<Rightarrow> string \<Rightarrow> string io" where
  "News_get_body w u features text_class =
     bind_io (News_get_soup w u features) (\<lambda>soup.
       lift (text_of (find_bs soup text_class)))"

text \<open>
  The body of the \<^verbatim>\<open>try\<close> in \<^verbatim>\<open>get_headlines\<close>, once \<^verbatim>\<open>articles[counter]\<close> is
  evaluated: \<^verbatim>\<open>self._get_body(article.link.text, "xml", "article")\<close>.
\<close>

definition try_body :: "world \<Rightarrow> node \<Rightarrow> string io" where
  "try_body w article =
     bind_io (lift (text_of (find_bs article ''link''))) (\<lambda>link.
       News_get_body w link ''xml'' ''article'')"

text \<open>
  The \<^verbatim>\<open>while not found_article\<close> loop, from a given value of \<^verbatim>\<open>counter\<close>. Indexing
  past the end of \<^verbatim>\<open>articles\<close> raises \<^verbatim>\<open>IndexError\<close>, which the \<^verbatim>\<open>except\<close> clause does
  not catch. Only \<^verbatim>\<open>AttributeError\<close> prints the message and advances the counter.
\<close>

function get_headlines_loop :: "world \<Rightarrow> node list \<Rightarrow> nat \<Rightarrow> string io" where
  "get_headlines_loop w articles counter =
     (case getitem articles counter of
        Inl e \<Rightarrow> raise e
      | Inr article \<Rightarrow>
          (let m = try_body w article in
           if snd m = Inl AttributeError
           then after (fst m @ [Print ''Article not found, trying next article.''])
                  (get_headlines_loop w articles (counter + 1))
           else m))"
  by pat_completeness auto
termination
  by (relation "measure (\<lambda>(w, articles, counter). length articles - counter)")
     (auto simp: getitem_def split: if_splits)

declare get_headlines_loop.simps [simp del]

definition BBCNews_get_headlines :: "world \<Rightarrow> News \<Rightarrow> (string \<times> string \<times> string) io" where
  "BBCNews_get_headlines w self =
     bind_io (News_get_soup w (url self) ''xml'') (\<lambda>soup.
       let articles = find_all_bs soup ''item'' in
       bind_io (get_headlines_loop w articles 0) (\<lambda>body.
       bind_io (lift (getitem articles 0)) (\<lambda>first.
       bind_io (lift (text_of (find_bs first ''title''))) (\<lambda>title.
       bind_io (lift (getitem articles 0)) (\<lambda>first'.
       bind_io (lift (text_of (find_bs first' ''description''))) (\<lambda>description.
         return_io (title, description, body)))))))"

subsection \<open>AIChat\<close>

text \<open>
  A message is a Python dict with string keys and values, kept as the list of its
  items in the order the literal writes them. \<^verbatim>\<open>self.inputs\<close> is mutated in place
  by \<^verbatim>\<open>add_input\<close>; the model returns the updated object.
\<close>

record AIChat =
  client :: client
  model :: string
  temperature :: rat
  num_of_responses :: int
  inputs :: "dict list"

definition system_content :: string where
  "system_content =
     ''The user will input text taken from a BBC News article and you will summarise it in one to three sentences.\<newline>'' @
     ''                The article may contain biased language, so you should attempt to rephrase it to be more politically neutral.\<newline>'' @
     ''                You are delivering a daily news briefing to the user, so you should provide a summary of the article's main points without mentioning the article directly.''"

definition AIChat_init :: "client \<Rightarrow> AIChat" where
  "AIChat_init c =
     \<lparr>client = c,
      model = ''gpt-3.5-turbo'',
      temperature = 0.5,
      num_of_responses = 1,
      inputs = [[(''role'', ''system''), (''content'', system_content)]]\<rparr>"

text \<open>
  \<^verbatim>\<open>run_ai\<close> assigns nothing; it is given as the pair of the object after the call and
  the call itself.
\<close>

definition AIChat_run_ai :: "world \<Rightarrow> AIChat \<Rightarrow> AIChat \<times> chat_completion io" where
  "AIChat_run_ai w self =
     (let request = \<lparr>rq_model = model self,
                     rq_messages = inputs self,
                     rq_temperature = temperature self,
                     rq_n = num_of_responses self\<rparr>
      in (self, call (ChatCompletionsCreate request)
                  (chat_completions_create w (client self) request)))"

definition AIChat_add_input :: "AIChat \<Rightarrow> dict \<Rightarrow> AIChat" where
  "AIChat_add_input self d = self\<lparr>inputs := inputs self @ [d]\<rparr>"

subsection \<open>TTS\<close>

text \<open>
  A \<^verbatim>\<open>Path\<close> is the list of its parts. \<open>path_div\<close> is \<^verbatim>\<open>parent / name\<close> for a file name
  without separators, \<open>path_name\<close> is \<^verbatim>\<open>.name\<close>, the last part.
\<close>

definition path_div :: "string list \<Rightarrow> string \<Rightarrow> string list" where
  "path_div parent nm = parent @ [nm]"

definition path_name :: "string list \<Rightarrow> string" where
  "path_name p = (if p = [] then [] else last p)"

record TTS =
  tts_client :: client
  path :: "string list"

definition TTS_init :: "world \<Rightarrow> client \<Rightarrow> string \<Rightarrow> TTS" where
  "TTS_init w c filename =
     \<lparr>tts_client = c, path = path_div (file_parent w) (filename @ ''.mp3'')\<rparr>"

definition TTS_create_audio :: "world \<Rightarrow> TTS \<Rightarrow> string \<Rightarrow> unit io" where
  "TTS_create_audio w self text =
     (let request = \<lparr>sp_model = ''tts-1'', sp_voice = ''alloy'', sp_input = text\<rparr> in
      bind_io (call (AudioSpeechCreate request)
                 (audio_speech_create w (tts_client self) request)) (\<lambda>response.
        call (StreamToFile (path self)) (stream_to_file w response (path self))))"

definition TTS_play_audio :: "world \<Rightarrow> TTS \<Rightarrow> unit io" where
  "TTS_play_audio w self =
     call (Playsound (path_name (path self))) (playsound w (path_name (path self)))"

subsection \<open>main\<close>

definition print_choices :: "choice list \<Rightarrow> unit io" where
  "print_choices cs = (map (\<lambda>i. Print (content (message i))) cs, Inr ())"

definition main :: "world \<Rightarrow> unit io" where
  "main w =
     (let c = OpenAI (OPENAI_API_KEY w);
          news = BBCNews_init
      in bind_io (BBCNews_get_headlines w news) (\<lambda>(title, description, body).
         let ai_chat = AIChat_init c;
             ai_chat = AIChat_add_input ai_chat
                         [(''role'', ''user''), (''content'', ''Article Title: '' @ title)];
             ai_chat = AIChat_add_input ai_chat
                         [(''role'', ''user''), (''content'', ''Article Description: '' @ description)];
             ai_chat = AIChat_add_input ai_chat
                         [(''role'', ''user''), (''content'', ''Article Body: '' @ body)]
         in bind_io (snd (AIChat_run_ai w ai_chat)) (\<lambda>response.
            bind_io (print_choices (choices response)) (\<lambda>u.
            let tts = TTS_init w c ''news'' in
            bind_io (lift (getitem (choices response) 0)) (\<lambda>first.
            bind_io (TTS_create_audio w tts (content (message first))) (\<lambda>u.
            bind_io (call (Sleep 0.5) (Inr ())) (\<lambda>u.
              TTS_play_audio w tts)))))))"

subsection \<open>Reading a trace\<close>

text \<open>
  What a trace holds of each kind of call, in order: the requests sent to the completion
  endpoint and to the speech endpoint, the paths written and played, and the timeouts of
  the HTTP requests. \<open>resolver_event\<close> holds of the two kinds of event that fetching
  and resolving cause.
\<close>

fun chat_requests :: "event list \<Rightarrow> chat_request list" where
  "chat_requests [] = []"
| "chat_requests (ChatCompletionsCreate r # evs) = r # chat_requests evs"
| "chat_requests (ev # evs) = chat_requests evs"

fun speech_requests :: "event list \<Rightarrow> speech_request list" where
  "speech_requests [] = []"
| "speech_requests (AudioSpeechCreate r # evs) = r # speech_requests evs"
| "speech_requests (ev # evs) = speech_requests evs"

fun files_written :: "event list \<Rightarrow> string list list" where
  "files_written [] = []"
| "files_written (StreamToFile p # evs) = p # files_written evs"
| "files_written (ev # evs) = files_written evs"

fun files_played :: "event list \<Rightarrow> string list" where
  "files_played [] = []"
| "files_played (Playsound p # evs) = p # files_played evs"
| "files_played (ev # evs) = files_played evs"


fun resolver_event :: "event \<Rightarrow> bool" where
  "resolver_event (RequestsGet u t) = True"
| "resolver_event (Print s) = True"
| "resolver_event ev = False"

text \<open>
  The request \<^verbatim>\<open>main\<close> builds from a resolved article, the speech request for a text,
  and the events of \<^verbatim>\<open>main\<close> after the completion endpoint has answered with the
  given choices.
\<close>

definition summary_request :: "string \<Rightarrow> string \<Rightarrow> string \<Rightarrow> chat_request" where
  "summary_request t d b =
     \<lparr>rq_model = ''gpt-3.5-turbo'',
      rq_messages =
        [[(''role'', ''system''), (''content'', system_content)],
         [(''role'', ''user''), (''content'', ''Article Title: '' @ t)],
         [(''role'', ''user''), (''content'', ''Article Description: '' @ d)],
         [(''role'', ''user''), (''content'', ''Article Body: '' @ b)]],
      rq_temperature = 0.5,
      rq_n = 1\<rparr>"

definition speech_of :: "string \<Rightarrow> speech_request" where
  "speech_of s = \<lparr>sp_model = ''tts-1'', sp_voice = ''alloy'', sp_input = s\<rparr>"

definition after_summary :: "world \<Rightarrow> choice list \<Rightarrow> event list" where
  "after_summary w cs =
     map (\<lambda>i. Print (content (message i))) cs @
     (case cs of
        [] \<Rightarrow> []
      | ch # rest \<Rightarrow>
          AudioSpeechCreate (speech_of (content (message ch))) #
          (case audio_speech_create w (OpenAI (OPENAI_API_KEY w))
                  (speech_of (content (message ch))) of
             Inl e \<Rightarrow> []
           | Inr audio \<Rightarrow>
               StreamToFile (file_parent w @ [''news.mp3'']) #
               (case stream_to_file w audio (file_parent w @ [''news.mp3'']) of
                  Inl e \<Rightarrow> []
                | Inr u \<Rightarrow> [Sleep 0.5, Playsound ''news.mp3''])))"

subsection \<open>Concrete runs\<close>

text \<open>
  A feed of two items A and B. In \<open>world_AB\<close> the page of A has no \<^verbatim>\<open>article\<close> element
  and the page of B has one; in \<open>world_none\<close> neither page has one; in \<open>world_timeout\<close>
  the request for the page of A times out; in \<open>world_mute\<close> the speech endpoint fails;
  in \<open>world_unreachable\<close> the page of A has no \<^verbatim>\<open>article\<close> element and the page of B
  cannot be reached.
  The program is installed in \<^verbatim>\<open>/opt/reader\<close>.
\<close>

definition item_A :: node where
  "item_A = Tag ''item''
     [Tag ''title'' [NavigableString ''Headline A''],
      Tag ''description'' [NavigableString ''Desc A''],
      Tag ''link'' [NavigableString ''http://a'']]"

definition item_B :: node where
  "item_B = Tag ''item''
     [Tag ''title'' [NavigableString ''Headline B''],
      Tag ''description'' [NavigableString ''Desc B''],
      Tag ''link'' [NavigableString ''http://b'']]"

definition feed_AB :: node where
  "feed_AB = Tag ''[document]''
     [Tag ''rss'' [Tag ''channel'' [Tag ''title'' [NavigableString ''BBC News''], item_A, item_B]]]"

definition page_video :: node where
  "page_video = Tag ''[document]'' [Tag ''html'' [Tag ''body'' [Tag ''video'' []]]]"

definition page_B :: node where
  "page_B = Tag ''[document]''
     [Tag ''html'' [Tag ''body'' [Tag ''article'' [Tag ''p'' [NavigableString ''Body text B'']]]]]"

definition world_AB :: world where
  "world_AB =
     \<lparr>OPENAI_API_KEY = ''sk-test'',
      file_parent = [''/'', ''opt'', ''reader''],
      requests_get = (\<lambda>u t.
        if u = ''http://feeds.bbci.co.uk/news/rss.xml'' then Inr ''feed''
        else if u = ''http://a'' then Inr ''a''
        else if u = ''http://b'' then Inr ''b''
        else Inl (Exception ''requests.exceptions.ConnectionError'')),
      bsoup = (\<lambda>markup features.
        if markup = ''feed'' then Inr feed_AB
        else if markup = ''b'' then Inr page_B
        else Inr page_video),
      chat_completions_create = (\<lambda>c r.
        Inr (ChatCompletion [Choice (ChatCompletionMessage ''Summary B'')])),
      audio_speech_create = (\<lambda>c r. Inr ''mp3''),
      stream_to_file = (\<lambda>audio p. Inr ()),
      playsound = (\<lambda>p. Inr ())\<rparr>"

definition world_none :: world where
  "world_none = world_AB\<lparr>bsoup := (\<lambda>markup features.
     if markup = ''feed'' then Inr feed_AB else Inr page_video)\<rparr>"

definition world_timeout :: world where
  "world_timeout = world_AB\<lparr>requests_get := (\<lambda>u t.
     if u = ''http://feeds.bbci.co.uk/news/rss.xml'' then Inr ''feed''
     else if u = ''http://b'' then Inr ''b''
     else Inl (Exception ''requests.exceptions.ReadTimeout''))\<rparr>"

definition world_mute :: world where
  "world_mute = world_AB\<lparr>audio_speech_create := (\<lambda>c r.
     Inl (Exception ''openai.APIConnectionError''))\<rparr>"

definition world_unreachable :: world where
  "world_unreachable = world_none\<lparr>requests_get := (\<lambda>u t.
     if u = ''http://feeds.bbci.co.uk/news/rss.xml'' then Inr ''feed''
     else if u = ''http://a'' then Inr ''a''
     else Inl (Exception ''requests.exceptions.ConnectionError''))\<rparr>"

section \<open>Properties\<close>

subsection \<open>Traces\<close>

lemma chat_requests_append:
  "chat_requests (xs @ ys) = chat_requests xs @ chat_requests ys"
  by (induction xs rule: chat_requests.induct) simp_all

lemma speech_requests_append:
  "speech_requests (xs @ ys) = speech_requests xs @ speech_requests ys"
  by (induction xs rule: speech_requests.induct) simp_all

lemma files_written_append:
  "files_written (xs @ ys) = files_written xs @ files_written ys"
  by (induction xs rule: files_written.induct) simp_all

lemma files_played_append:
  "files_played (xs @ ys) = files_played xs @ files_played ys"
  by (induction xs rule: files_played.induct) simp_all


lemma resolver_no_chat: "list_all resolver_event tr \<Longrightarrow> chat_requests tr = []"
  by (induction tr rule: chat_requests.induct) simp_all

lemma resolver_no_speech: "list_all resolver_event tr \<Longrightarrow> speech_requests tr = []"
  by (induction tr rule: speech_requests.induct) simp_all

lemma resolver_no_written: "list_all resolver_event tr \<Longrightarrow> files_written tr = []"
  by (induction tr rule: files_written.induct) simp_all

lemma resolver_no_played: "list_all resolver_event tr \<Longrightarrow> files_played tr = []"
  by (induction tr rule: files_played.induct) simp_all

lemma print_no_chat: "chat_requests (map (\<lambda>i. Print (f i)) cs) = []"
  by (induction cs) simp_all

lemma print_no_speech: "speech_requests (map (\<lambda>i. Print (f i)) cs) = []"
  by (induction cs) simp_all

lemma print_no_written: "files_written (map (\<lambda>i. Print (f i)) cs) = []"
  by (induction cs) simp_all

lemma print_no_played: "files_played (map (\<lambda>i. Print (f i)) cs) = []"
  by (induction cs) simp_all

subsection \<open>The resolver loop\<close>

lemma get_soup_events: "list_all resolver_event (fst (News_get_soup w u f))"
  by (simp add: News_get_soup_def bind_io_def call_def lift_def after_def split: sum.splits)

lemma get_body_events: "list_all resolver_event (fst (News_get_body w u f c))"
  using get_soup_events [of w u f]
  by (simp add: News_get_body_def bind_io_def lift_def after_def split: sum.splits)

lemma try_body_events: "list_all resolver_event (fst (try_body w a))"
  using get_body_events
  by (simp add: try_body_def bind_io_def lift_def after_def split: sum.splits)

lemma loop_step_skip:
  assumes "i < length articles" and "snd (try_body w (articles ! i)) = Inl AttributeError"
  shows "get_headlines_loop w articles i =
           after (fst (try_body w (articles ! i)) @ [Print ''Article not found, trying next article.''])
             (get_headlines_loop w articles (i + 1))"
  using assms by (simp add: get_headlines_loop.simps [of w articles i] getitem_def)

lemma loop_step_stop:
  assumes "i < length articles" and "snd (try_body w (articles ! i)) \<noteq> Inl AttributeError"
  shows "get_headlines_loop w articles i = try_body w (articles ! i)"
  using assms by (simp add: get_headlines_loop.simps [of w articles i] getitem_def)

lemma loop_step_end:
  assumes "length articles \<le> i"
  shows "get_headlines_loop w articles i = ([], Inl IndexError)"
  using assms by (simp add: get_headlines_loop.simps [of w articles i] getitem_def raise_def)

lemma loop_events: "list_all resolver_event (fst (get_headlines_loop w articles n))"
proof (induction w articles n rule: get_headlines_loop.induct)
  case (1 w articles counter)
  show ?case
  proof (cases "counter < length articles")
    case False
    then show ?thesis by (simp add: loop_step_end)
  next
    case inside: True
    show ?thesis
    proof (cases "snd (try_body w (articles ! counter)) = Inl AttributeError")
      case True
      with inside 1 try_body_events [of w "articles ! counter"] show ?thesis
        by (simp add: loop_step_skip after_def getitem_def)
    next
      case False
      with inside try_body_events [of w "articles ! counter"] show ?thesis
        by (simp add: loop_step_stop)
    qed
  qed
qed

lemma loop_reaches:
  assumes "k < length articles"
    and "\<forall>j. i \<le> j \<and> j < k \<longrightarrow> snd (try_body w (articles ! j)) = Inl AttributeError"
    and "snd (try_body w (articles ! k)) \<noteq> Inl AttributeError"
    and "i \<le> k"
  shows "snd (get_headlines_loop w articles i) = snd (try_body w (articles ! k))"
  using assms
proof (induction "k - i" arbitrary: i)
  case 0
  then have "i = k" by simp
  with 0 show ?case by (simp add: loop_step_stop)
next
  case (Suc n)
  then have lt: "i < k" by simp
  with Suc.prems have skip: "snd (try_body w (articles ! i)) = Inl AttributeError" by simp
  from lt Suc.prems have il: "i < length articles" by simp
  have "snd (get_headlines_loop w articles (i + 1)) = snd (try_body w (articles ! k))"
    using Suc.hyps Suc.prems lt by (intro Suc.hyps(1)) auto
  then show ?case by (simp add: loop_step_skip [OF il skip] after_def)
qed

lemma loop_exhausts:
  assumes "\<forall>j. i \<le> j \<and> j < length articles \<longrightarrow>
             snd (try_body w (articles ! j)) = Inl AttributeError"
  shows "snd (get_headlines_loop w articles i) = Inl IndexError"
  using assms
proof (induction "length articles - i" arbitrary: i)
  case 0
  then show ?case by (simp add: loop_step_end)
next
  case (Suc n)
  then have il: "i < length articles" by simp
  with Suc.prems have skip: "snd (try_body w (articles ! i)) = Inl AttributeError" by simp
  have "snd (get_headlines_loop w articles (i + 1)) = Inl IndexError"
    using Suc.hyps Suc.prems by (intro Suc.hyps(1)) auto
  then show ?case by (simp add: loop_step_skip [OF il skip] after_def)
qed

lemma headlines_events: "list_all resolver_event (fst (BBCNews_get_headlines w self))"
  using get_soup_events [of w "url self" "''xml''"]
  by (simp add: BBCNews_get_headlines_def bind_io_def lift_def after_def return_io_def Let_def
        loop_events split: sum.splits)

subsection \<open>The trace of main\<close>

lemma main_aborts:
  "snd (BBCNews_get_headlines w BBCNews_init) = Inl e \<Longrightarrow>
   main w = (fst (BBCNews_get_headlines w BBCNews_init), Inl e)"
  by (simp add: main_def bind_io_def Let_def)

lemma main_trace:
  assumes "snd (BBCNews_get_headlines w BBCNews_init) = Inr (t, d, b)"
  shows "fst (main w) =
           fst (BBCNews_get_headlines w BBCNews_init) @
           ChatCompletionsCreate (summary_request t d b) #
           (case chat_completions_create w (OpenAI (OPENAI_API_KEY w)) (summary_request t d b) of
              Inl e \<Rightarrow> []
            | Inr response \<Rightarrow> after_summary w (choices response))"
  using assms
  by (simp add: main_def bind_io_def Let_def after_def call_def lift_def AIChat_run_ai_def
        AIChat_add_input_def AIChat_init_def summary_request_def speech_of_def after_summary_def
        print_choices_def getitem_def TTS_init_def TTS_create_audio_def TTS_play_audio_def
        path_div_def path_name_def
      split: sum.splits list.splits)

lemma after_summary_chat: "chat_requests (after_summary w cs) = []"
  by (simp add: after_summary_def chat_requests_append print_no_chat
      split: list.splits sum.splits)

lemma main_chat_requests:
  assumes "snd (BBCNews_get_headlines w BBCNews_init) = Inr (t, d, b)"
  shows "chat_requests (fst (main w)) = [summary_request t d b]"
  by (simp add: main_trace [OF assms] chat_requests_append resolver_no_chat [OF headlines_events]
        after_summary_chat split: sum.splits)

lemma foldl_add_input: "inputs (foldl AIChat_add_input a ds) = inputs a @ ds"
  by (induction ds arbitrary: a) (simp_all add: AIChat_add_input_def)

subsection \<open>Resolution and the rest of main\<close>

lemma headlines_exhausted:
  assumes "snd (News_get_soup w (url self) ''xml'') = Inr soup"
    and "\<forall>a \<in> set (find_all_bs soup ''item''). snd (try_body w a) = Inl AttributeError"
  shows "snd (BBCNews_get_headlines w self) = Inl IndexError"
proof -
  have "snd (get_headlines_loop w (find_all_bs soup ''item'') 0) = Inl IndexError"
    using assms(2) by (intro loop_exhausts) simp
  then show ?thesis
    using assms(1)
    by (simp add: BBCNews_get_headlines_def bind_io_def Let_def after_def)
qed

lemma headlines_propagates:
  assumes "snd (News_get_soup w (url self) ''xml'') = Inr soup"
    and "snd (get_headlines_loop w (find_all_bs soup ''item'') 0) = Inl e"
  shows "snd (BBCNews_get_headlines w self) = Inl e"
  using assms by (simp add: BBCNews_get_headlines_def bind_io_def Let_def after_def)

lemma main_unresolved:
  assumes "snd (BBCNews_get_headlines w BBCNews_init) = Inl e"
  shows "snd (main w) = Inl e" and "list_all resolver_event (fst (main w))"
  using headlines_events [of w BBCNews_init] by (simp_all add: main_aborts [OF assms])








lemma after_summary_speech:
  "speech_requests (after_summary w cs) =
     (case cs of [] \<Rightarrow> [] | ch # rest \<Rightarrow> [speech_of (content (message ch))])"
  by (simp add: after_summary_def speech_requests_append print_no_speech
      split: list.splits sum.splits)

lemma after_summary_played:
  "files_played (after_summary w cs) =
     (case cs of
        [] \<Rightarrow> []
      | ch # rest \<Rightarrow>
          (case audio_speech_create w (OpenAI (OPENAI_API_KEY w))
                  (speech_of (content (message ch))) of
             Inl e \<Rightarrow> []
           | Inr audio \<Rightarrow>
               (case stream_to_file w audio (file_parent w @ [''news.mp3'']) of
                  Inl e \<Rightarrow> [] | Inr u \<Rightarrow> [''news.mp3''])))"
  by (simp add: after_summary_def files_played_append print_no_played
      split: list.splits sum.splits)

lemma main_speech_requests:
  assumes "snd (BBCNews_get_headlines w BBCNews_init) = Inr (t, d, b)"
  shows "speech_requests (fst (main w)) =
           (case chat_completions_create w (OpenAI (OPENAI_API_KEY w)) (summary_request t d b) of
              Inl e \<Rightarrow> []
            | Inr response \<Rightarrow> speech_requests (after_summary w (choices response)))"
  by (simp add: main_trace [OF assms] speech_requests_append
        resolver_no_speech [OF headlines_events] split: sum.splits)

lemma main_files_played:
  assumes "snd (BBCNews_get_headlines w BBCNews_init) = Inr (t, d, b)"
  shows "files_played (fst (main w)) =
           (case chat_completions_create w (OpenAI (OPENAI_API_KEY w)) (summary_request t d b) of
              Inl e \<Rightarrow> []
            | Inr response \<Rightarrow> files_played (after_summary w (choices response)))"
  by (simp add: main_trace [OF assms] files_played_append
        resolver_no_played [OF headlines_events] split: sum.splits)

lemma create_audio_result:
  "snd (TTS_create_audio w (TTS_init w c ''news'') s) =
     (case audio_speech_create w c (speech_of s) of
        Inl e \<Rightarrow> Inl e
      | Inr audio \<Rightarrow> stream_to_file w audio (file_parent w @ [''news.mp3'']))"
  by (simp add: TTS_create_audio_def TTS_init_def bind_io_def call_def after_def speech_of_def
        path_div_def Let_def split: sum.splits)

lemma main_spoken:
  assumes "speech_requests (fst (main w)) = [request]"
  obtains t d b response ch rest where
    "snd (BBCNews_get_headlines w BBCNews_init) = Inr (t, d, b)"
    "chat_completions_create w (OpenAI (OPENAI_API_KEY w)) (summary_request t d b) = Inr response"
    "choices response = ch # rest"
    "request = speech_of (content (message ch))"
proof (cases "snd (BBCNews_get_headlines w BBCNews_init)")
  case (Inl e)
  then have "speech_requests (fst (main w)) = []"
    using headlines_events [of w BBCNews_init]
    by (simp add: main_aborts resolver_no_speech)
  with assms show ?thesis by simp
next
  case (Inr r)
  obtain t d b where r: "r = (t, d, b)" by (cases r) auto
  with Inr have resolved: "snd (BBCNews_get_headlines w BBCNews_init) = Inr (t, d, b)" by simp
  show ?thesis
  proof (cases "chat_completions_create w (OpenAI (OPENAI_API_KEY w)) (summary_request t d b)")
    case (Inl e)
    with assms show ?thesis by (simp add: main_speech_requests [OF resolved])
  next
    case answered: (Inr response)
    show ?thesis
    proof (cases "choices response")
      case Nil
      with assms answered show ?thesis
        by (simp add: main_speech_requests [OF resolved] after_summary_speech)
    next
      case (Cons ch rest)
      with assms answered have "request = speech_of (content (message ch))"
        by (simp add: main_speech_requests [OF resolved] after_summary_speech)
      with resolved answered Cons show ?thesis by (rule that)
    qed
  qed
qed

lemma loop_fails:
  assumes "\<forall>j. i \<le> j \<and> j < length articles \<longrightarrow> (\<exists>e. snd (try_body w (articles ! j)) = Inl e)"
  shows "\<exists>e. snd (get_headlines_loop w articles i) = Inl e"
  using assms
proof (induction "length articles - i" arbitrary: i)
  case 0
  then show ?case by (simp add: loop_step_end)
next
  case (Suc n)
  then have il: "i < length articles" by simp
  show ?case
  proof (cases "snd (try_body w (articles ! i)) = Inl AttributeError")
    case True
    have "\<exists>e. snd (get_headlines_loop w articles (i + 1)) = Inl e"
      using Suc.hyps Suc.prems by (intro Suc.hyps(1)) auto
    then show ?thesis by (simp add: loop_step_skip [OF il True] after_def)
  next
    case False
    from Suc.prems il obtain e where "snd (try_body w (articles ! i)) = Inl e" by auto
    then show ?thesis by (simp add: loop_step_stop [OF il False])
  qed
qed

lemma headlines_without_body:
  assumes "snd (News_get_soup w (url self) ''xml'') = Inr soup"
    and "articles = find_all_bs soup ''item''"
    and "\<forall>a \<in> set articles. \<exists>e. snd (try_body w a) = Inl e"
  shows "\<exists>e. snd (BBCNews_get_headlines w self) = Inl e"
    and "(\<forall>a \<in> set articles. snd (try_body w a) = Inl AttributeError) \<Longrightarrow>
         snd (BBCNews_get_headlines w self) = Inl IndexError"
    and "\<And>k e. k < length articles \<Longrightarrow>
           (\<forall>j<k. snd (try_body w (articles ! j)) = Inl AttributeError) \<Longrightarrow>
           snd (try_body w (articles ! k)) = Inl e \<Longrightarrow> e \<noteq> AttributeError \<Longrightarrow>
           snd (BBCNews_get_headlines w self) = Inl e"
proof -
  have "\<exists>e. snd (get_headlines_loop w articles 0) = Inl e"
    using assms(3) by (intro loop_fails) simp
  then obtain e where "snd (get_headlines_loop w (find_all_bs soup ''item'') 0) = Inl e"
    using assms(2) by auto
  then have "snd (BBCNews_get_headlines w self) = Inl e"
    by (rule headlines_propagates [OF assms(1)])
  then show "\<exists>e. snd (BBCNews_get_headlines w self) = Inl e" ..
next
  assume "\<forall>a \<in> set articles. snd (try_body w a) = Inl AttributeError"
  then show "snd (BBCNews_get_headlines w self) = Inl IndexError"
    using headlines_exhausted [OF assms(1)] assms(2) by simp
next
  fix k e
  assume k: "k < length articles"
    and before: "\<forall>j<k. snd (try_body w (articles ! j)) = Inl AttributeError"
    and raised: "snd (try_body w (articles ! k)) = Inl e" and other: "e \<noteq> AttributeError"
  from raised other have "snd (try_body w (articles ! k)) \<noteq> Inl AttributeError" by simp
  then have "snd (get_headlines_loop w articles 0) = snd (try_body w (articles ! k))"
    using loop_reaches [of k articles 0 w] k before by simp
  with raised have "snd (get_headlines_loop w (find_all_bs soup ''item'') 0) = Inl e"
    using assms(2) by simp
  then show "snd (BBCNews_get_headlines w self) = Inl e"
    by (rule headlines_propagates [OF assms(1)])
qed

lemma run_ai_trace:
  "fst (snd (AIChat_run_ai w (foldl AIChat_add_input (AIChat_init c) ds))) =
     [ChatCompletionsCreate
        \<lparr>rq_model = ''gpt-3.5-turbo'',
         rq_messages = [(''role'', ''system''), (''content'', system_content)] # ds,
         rq_temperature = 0.5,
         rq_n = 1\<rparr>]"
proof -
  have "model (foldl AIChat_add_input a ds) = model a
      \<and> temperature (foldl AIChat_add_input a ds) = temperature a
      \<and> num_of_responses (foldl AIChat_add_input a ds) = num_of_responses a" for a
    by (induction ds arbitrary: a) (simp_all add: AIChat_add_input_def)
  then show ?thesis
    by (simp add: AIChat_run_ai_def Let_def call_def foldl_add_input AIChat_init_def)
qed

section \<open>The claims\<close>

text \<open>
  C1, as amended. Let the feed be fetched and parsed, and let its items be \<open>articles\<close>,
  the first of which has a title and a description. If for every item before position
  \<open>k\<close> the extraction of a body raises \<^verbatim>\<open>AttributeError\<close> (as it does when the linked
  page is fetched and parsed but has no \<^verbatim>\<open>article\<close> element), and the page of item \<open>k\<close>
  yields the body \<open>body\<close>, then \<^verbatim>\<open>get_headlines\<close> returns the title and the description
  of the first item together with \<open>body\<close>. Positions count from 0; the body need not
  be non-empty.
\<close>

theorem resolver_first_title_later_body:
  assumes "snd (News_get_soup w (url self) ''xml'') = Inr soup"
    and "articles = find_all_bs soup ''item''"
    and "k < length articles"
    and "\<forall>j<k. snd (try_body w (articles ! j)) = Inl AttributeError"
    and "snd (try_body w (articles ! k)) = Inr body"
    and "text_of (find_bs (articles ! 0) ''title'') = Inr title"
    and "text_of (find_bs (articles ! 0) ''description'') = Inr description"
  shows "snd (BBCNews_get_headlines w self) = Inr (title, description, body)"
proof -
  have "snd (get_headlines_loop w articles 0) = Inr body"
    using loop_reaches [of k articles 0 w] assms(3,4,5) by simp
  moreover have "articles \<noteq> []" using assms(3) by auto
  ultimately show ?thesis
    using assms(1,2,6,7)
    by (simp add: BBCNews_get_headlines_def bind_io_def Let_def after_def lift_def
          return_io_def getitem_def)
qed

theorem resolver_first_title_later_body_witness:
  "snd (try_body world_AB item_A) = Inl AttributeError
   \<and> snd (try_body world_AB item_B) = Inr ''Body text B''
   \<and> snd (BBCNews_get_headlines world_AB BBCNews_init) =
       Inr (''Headline A'', ''Desc A'', ''Body text B'')"
proof -
  have soup: "snd (News_get_soup world_AB (url BBCNews_init) ''xml'') = Inr feed_AB"
    by code_simp
  have items: "[item_A, item_B] = find_all_bs feed_AB ''item''"
    by code_simp
  have first: "snd (try_body world_AB item_A) = Inl AttributeError"
    by code_simp
  have second: "snd (try_body world_AB item_B) = Inr ''Body text B''"
    by code_simp
  have title: "text_of (find_bs item_A ''title'') = Inr ''Headline A''"
    by code_simp
  have description: "text_of (find_bs item_A ''description'') = Inr ''Desc A''"
    by code_simp
  have len: "1 < length [item_A, item_B]"
    by simp
  have skipped: "\<forall>j<1. snd (try_body world_AB ([item_A, item_B] ! j)) = Inl AttributeError"
    using first by simp
  have found: "snd (try_body world_AB ([item_A, item_B] ! 1)) = Inr ''Body text B''"
    using second by simp
  have title': "text_of (find_bs ([item_A, item_B] ! 0) ''title'') = Inr ''Headline A''"
    using title by simp
  have description': "text_of (find_bs ([item_A, item_B] ! 0) ''description'') = Inr ''Desc A''"
    using description by simp
  have "snd (BBCNews_get_headlines world_AB BBCNews_init) =
          Inr (''Headline A'', ''Desc A'', ''Body text B'')"
    by (rule resolver_first_title_later_body
          [OF soup items len skipped found title' description'])
  with first second show ?thesis by simp
qed

text \<open>
  An earlier item whose link cannot be reached is not skipped. In \<open>world_timeout\<close> the
  request for the page of A times out, so A yields no body, and the page of B has one;
  \<^verbatim>\<open>get_headlines\<close> fails with the timeout after the request for A and never asks
  for B.
\<close>

theorem unreachable_link_aborts_resolution:
  "requests_get world_timeout ''http://a'' 10 =
     Inl (Exception ''requests.exceptions.ReadTimeout'')
   \<and> snd (try_body world_timeout item_A) = Inl (Exception ''requests.exceptions.ReadTimeout'')
   \<and> snd (try_body world_timeout item_B) = Inr ''Body text B''
   \<and> BBCNews_get_headlines world_timeout BBCNews_init =
       ([RequestsGet ''http://feeds.bbci.co.uk/news/rss.xml'' 10, RequestsGet ''http://a'' 10],
        Inl (Exception ''requests.exceptions.ReadTimeout''))
   \<and> snd (BBCNews_get_headlines world_timeout BBCNews_init) \<noteq>
       Inr (''Headline A'', ''Desc A'', ''Body text B'')"
  by code_simp

text \<open>
  C2, as amended. If the feed is fetched and parsed and no item yields a body (the
  attempt on each item raises some exception), \<^verbatim>\<open>get_headlines\<close> returns, and returns
  a failure. When every attempt raises \<^verbatim>\<open>AttributeError\<close> the failure is the
  \<^verbatim>\<open>IndexError\<close> that indexing the list of items past its end raises. Otherwise it is
  the exception of the first attempt that raises anything else, all earlier ones
  having raised \<^verbatim>\<open>AttributeError\<close>. The loop is a total function, so it never runs
  forever.
\<close>

theorem resolver_without_body_fails:
  assumes "snd (News_get_soup w (url self) ''xml'') = Inr soup"
    and "articles = find_all_bs soup ''item''"
    and "\<forall>a \<in> set articles. \<exists>e. snd (try_body w a) = Inl e"
  shows "(\<exists>e. snd (BBCNews_get_headlines w self) = Inl e)
       \<and> ((\<forall>a \<in> set articles. snd (try_body w a) = Inl AttributeError) \<longrightarrow>
            snd (BBCNews_get_headlines w self) = Inl IndexError)
       \<and> (\<forall>k e. k < length articles
            \<and> (\<forall>j<k. snd (try_body w (articles ! j)) = Inl AttributeError)
            \<and> snd (try_body w (articles ! k)) = Inl e \<and> e \<noteq> AttributeError \<longrightarrow>
            snd (BBCNews_get_headlines w self) = Inl e)"
  using headlines_without_body [OF assms] by blast

theorem resolver_without_body_fails_witness:
  "snd (try_body world_none item_A) = Inl AttributeError
   \<and> snd (try_body world_none item_B) = Inl AttributeError
   \<and> snd (BBCNews_get_headlines world_none BBCNews_init) = Inl IndexError
   \<and> snd (try_body world_unreachable item_A) = Inl AttributeError
   \<and> snd (try_body world_unreachable item_B) =
       Inl (Exception ''requests.exceptions.ConnectionError'')
   \<and> snd (BBCNews_get_headlines world_unreachable BBCNews_init) =
       Inl (Exception ''requests.exceptions.ConnectionError'')"
proof -
  have items: "[item_A, item_B] = find_all_bs feed_AB ''item''"
    by code_simp
  have soup: "snd (News_get_soup world_none (url BBCNews_init) ''xml'') = Inr feed_AB"
    by code_simp
  have first: "snd (try_body world_none item_A) = Inl AttributeError"
    by code_simp
  have second: "snd (try_body world_none item_B) = Inl AttributeError"
    by code_simp
  have none: "\<forall>a \<in> set [item_A, item_B]. \<exists>e. snd (try_body world_none a) = Inl e"
    using first second by simp
  have missing: "\<forall>a \<in> set [item_A, item_B]. snd (try_body world_none a) = Inl AttributeError"
    using first second by simp
  have exhausted: "snd (BBCNews_get_headlines world_none BBCNews_init) = Inl IndexError"
    using resolver_without_body_fails [OF soup items none] missing by blast

  have soup': "snd (News_get_soup world_unreachable (url BBCNews_init) ''xml'') = Inr feed_AB"
    by code_simp
  have first': "snd (try_body world_unreachable item_A) = Inl AttributeError"
    by code_simp
  have second': "snd (try_body world_unreachable item_B) =
      Inl (Exception ''requests.exceptions.ConnectionError'')"
    by code_simp
  have none': "\<forall>a \<in> set [item_A, item_B]. \<exists>e. snd (try_body world_unreachable a) = Inl e"
    using first' second' by simp
  have len: "1 < length [item_A, item_B]"
    by simp
  have before: "\<forall>j<1. snd (try_body world_unreachable ([item_A, item_B] ! j)) = Inl AttributeError"
    using first' by simp
  have raised: "snd (try_body world_unreachable ([item_A, item_B] ! 1)) =
      Inl (Exception ''requests.exceptions.ConnectionError'')"
    using second' by simp
  have other: "Exception ''requests.exceptions.ConnectionError'' \<noteq> AttributeError"
    by simp
  have propagates: "snd (BBCNews_get_headlines world_unreachable BBCNews_init) = Inl e"
    if "k < length [item_A, item_B]"
      and "\<forall>j<k. snd (try_body world_unreachable ([item_A, item_B] ! j)) = Inl AttributeError"
      and "snd (try_body world_unreachable ([item_A, item_B] ! k)) = Inl e"
      and "e \<noteq> AttributeError" for k e
    using resolver_without_body_fails [OF soup' items none'] that by blast
  have aborted: "snd (BBCNews_get_headlines world_unreachable BBCNews_init) =
      Inl (Exception ''requests.exceptions.ConnectionError'')"
    by (rule propagates [OF len before raised other])
  from first second exhausted first' second' aborted show ?thesis
    by (simp only:)
qed

text \<open>
  The feed of two items whose pages both lack the \<^verbatim>\<open>article\<close> element: both are tried,
  then the run fails with \<^verbatim>\<open>IndexError\<close>, which is not an exception named
  \<^verbatim>\<open>NoArticleFoundError\<close>.
\<close>

theorem resolver_exhausted_not_NoArticleFoundError:
  "snd (try_body world_none item_A) = Inl AttributeError
   \<and> snd (try_body world_none item_B) = Inl AttributeError
   \<and> BBCNews_get_headlines world_none BBCNews_init =
       ([RequestsGet ''http://feeds.bbci.co.uk/news/rss.xml'' 10,
         RequestsGet ''http://a'' 10,
         Print ''Article not found, trying next article.'',
         RequestsGet ''http://b'' 10,
         Print ''Article not found, trying next article.''],
        Inl IndexError)
   \<and> snd (BBCNews_get_headlines world_none BBCNews_init) \<noteq>
       Inl (Exception ''NoArticleFoundError'')"
  by code_simp

text \<open>
  C3. Whatever the title, description and body that the resolver returns (empty strings
  included), \<^verbatim>\<open>main\<close> sends exactly one conversation to the completion endpoint. It is
  the system message followed by three user messages, in the order title, description,
  body; the content of each is its fixed label followed by the string, unchanged.
\<close>

theorem conversation_sent:
  assumes "snd (BBCNews_get_headlines w BBCNews_init) = Inr (title, description, body)"
  shows "map rq_messages (chat_requests (fst (main w))) =
           [[[(''role'', ''system''), (''content'', system_content)],
             [(''role'', ''user''), (''content'', ''Article Title: '' @ title)],
             [(''role'', ''user''), (''content'', ''Article Description: '' @ description)],
             [(''role'', ''user''), (''content'', ''Article Body: '' @ body)]]]"
  by (simp add: main_chat_requests [OF assms] summary_request_def)

theorem conversation_sent_witness:
  "snd (BBCNews_get_headlines world_AB BBCNews_init) =
     Inr (''Headline A'', ''Desc A'', ''Body text B'')
   \<and> map rq_messages (chat_requests (fst (main world_AB))) =
       [[[(''role'', ''system''), (''content'', system_content)],
         [(''role'', ''user''), (''content'', ''Article Title: Headline A'')],
         [(''role'', ''user''), (''content'', ''Article Description: Desc A'')],
         [(''role'', ''user''), (''content'', ''Article Body: Body text B'')]]]"
proof -
  have resolved: "snd (BBCNews_get_headlines world_AB BBCNews_init) =
      Inr (''Headline A'', ''Desc A'', ''Body text B'')"
    by code_simp
  show ?thesis
    using resolved conversation_sent [OF resolved] by simp
qed

text \<open>
  C4, as amended. If the feed is fetched and parsed and no item yields a body (the
  attempt on each item raises some exception), \<^verbatim>\<open>main\<close> fails: with \<^verbatim>\<open>IndexError\<close> when
  every attempt raises \<^verbatim>\<open>AttributeError\<close>, and otherwise with the exception of the
  first attempt that raises anything else. In either case its trace holds no request
  to the completion endpoint, no request to the speech endpoint, no file written and
  no playback.
\<close>

theorem main_without_body_aborts:
  assumes "snd (News_get_soup w (url BBCNews_init) ''xml'') = Inr soup"
    and "articles = find_all_bs soup ''item''"
    and "\<forall>a \<in> set articles. \<exists>e. snd (try_body w a) = Inl e"
  shows "(\<exists>e. snd (main w) = Inl e)
       \<and> ((\<forall>a \<in> set articles. snd (try_body w a) = Inl AttributeError) \<longrightarrow>
            snd (main w) = Inl IndexError)
       \<and> (\<forall>k e. k < length articles
            \<and> (\<forall>j<k. snd (try_body w (articles ! j)) = Inl AttributeError)
            \<and> snd (try_body w (articles ! k)) = Inl e \<and> e \<noteq> AttributeError \<longrightarrow>
            snd (main w) = Inl e)
       \<and> chat_requests (fst (main w)) = []
       \<and> speech_requests (fst (main w)) = []
       \<and> files_written (fst (main w)) = []
       \<and> files_played (fst (main w)) = []"
proof -
  note resolver = headlines_without_body [OF assms]
  from resolver(1) obtain e where failed: "snd (BBCNews_get_headlines w BBCNews_init) = Inl e" ..
  have "snd (main w) = Inl e"
    by (rule main_unresolved(1) [OF failed])
  then have fails: "\<exists>e. snd (main w) = Inl e" ..
  have quiet: "list_all resolver_event (fst (main w))"
    by (rule main_unresolved(2) [OF failed])
  have exhausted: "snd (main w) = Inl IndexError"
    if "\<forall>a \<in> set articles. snd (try_body w a) = Inl AttributeError"
    using main_unresolved(1) [OF resolver(2) [OF that]] .
  have propagates: "snd (main w) = Inl e'"
    if "k < length articles" and "\<forall>j<k. snd (try_body w (articles ! j)) = Inl AttributeError"
      and "snd (try_body w (articles ! k)) = Inl e'" and "e' \<noteq> AttributeError" for k e'
    using main_unresolved(1) [OF resolver(3) [OF that]] .
  have silent: "chat_requests (fst (main w)) = []" "speech_requests (fst (main w)) = []"
    "files_written (fst (main w)) = []" "files_played (fst (main w)) = []"
    using quiet
    by (simp_all add: resolver_no_chat resolver_no_speech resolver_no_written resolver_no_played)
  from fails exhausted propagates silent show ?thesis
    by blast
qed

theorem main_without_body_aborts_witness:
  "snd (try_body world_none item_A) = Inl AttributeError
   \<and> snd (try_body world_none item_B) = Inl AttributeError
   \<and> snd (main world_none) = Inl IndexError
   \<and> chat_requests (fst (main world_none)) = []
   \<and> speech_requests (fst (main world_none)) = []
   \<and> files_written (fst (main world_none)) = []
   \<and> files_played (fst (main world_none)) = []
   \<and> snd (try_body world_unreachable item_A) = Inl AttributeError
   \<and> snd (try_body world_unreachable item_B) =
       Inl (Exception ''requests.exceptions.ConnectionError'')
   \<and> snd (main world_unreachable) = Inl (Exception ''requests.exceptions.ConnectionError'')
   \<and> chat_requests (fst (main world_unreachable)) = []
   \<and> speech_requests (fst (main world_unreachable)) = []
   \<and> files_written (fst (main world_unreachable)) = []
   \<and> files_played (fst (main world_unreachable)) = []"
proof -
  have items: "[item_A, item_B] = find_all_bs feed_AB ''item''"
    by code_simp
  have soup: "snd (News_get_soup world_none (url BBCNews_init) ''xml'') = Inr feed_AB"
    by code_simp
  have first: "snd (try_body world_none item_A) = Inl AttributeError"
    by code_simp
  have second: "snd (try_body world_none item_B) = Inl AttributeError"
    by code_simp
  have none: "\<forall>a \<in> set [item_A, item_B]. \<exists>e. snd (try_body world_none a) = Inl e"
    using first second by simp
  have missing: "\<forall>a \<in> set [item_A, item_B]. snd (try_body world_none a) = Inl AttributeError"
    using first second by simp
  note run = main_without_body_aborts [OF soup items none]
  from run missing have exhausted: "snd (main world_none) = Inl IndexError"
    by blast
  from run have quiet: "chat_requests (fst (main world_none)) = []"
    "speech_requests (fst (main world_none)) = []"
    "files_written (fst (main world_none)) = []"
    "files_played (fst (main world_none)) = []"
    by blast+

  have soup': "snd (News_get_soup world_unreachable (url BBCNews_init) ''xml'') = Inr feed_AB"
    by code_simp
  have first': "snd (try_body world_unreachable item_A) = Inl AttributeError"
    by code_simp
  have second': "snd (try_body world_unreachable item_B) =
      Inl (Exception ''requests.exceptions.ConnectionError'')"
    by code_simp
  have none': "\<forall>a \<in> set [item_A, item_B]. \<exists>e. snd (try_body world_unreachable a) = Inl e"
    using first' second' by simp
  have len: "1 < length [item_A, item_B]"
    by simp
  have before: "\<forall>j<1. snd (try_body world_unreachable ([item_A, item_B] ! j)) = Inl AttributeError"
    using first' by simp
  have raised: "snd (try_body world_unreachable ([item_A, item_B] ! 1)) =
      Inl (Exception ''requests.exceptions.ConnectionError'')"
    using second' by simp
  have other: "Exception ''requests.exceptions.ConnectionError'' \<noteq> AttributeError"
    by simp
  note run' = main_without_body_aborts [OF soup' items none']
  have propagates: "snd (main world_unreachable) = Inl e"
    if "k < length [item_A, item_B]"
      and "\<forall>j<k. snd (try_body world_unreachable ([item_A, item_B] ! j)) = Inl AttributeError"
      and "snd (try_body world_unreachable ([item_A, item_B] ! k)) = Inl e"
      and "e \<noteq> AttributeError" for k e
    using run' that by blast
  have aborted: "snd (main world_unreachable) =
      Inl (Exception ''requests.exceptions.ConnectionError'')"
    by (rule propagates [OF len before raised other])
  from run' have quiet': "chat_requests (fst (main world_unreachable)) = []"
    "speech_requests (fst (main world_unreachable)) = []"
    "files_written (fst (main world_unreachable)) = []"
    "files_played (fst (main world_unreachable)) = []"
    by blast+
  from first second exhausted quiet first' second' aborted quiet' show ?thesis
    by (simp only:)
qed

text \<open>
  The same feed of two items without a body, run through \<^verbatim>\<open>main\<close>: the exception that
  ends the run is \<^verbatim>\<open>IndexError\<close>, not one named \<^verbatim>\<open>NoArticleFoundError\<close>.
\<close>

theorem main_aborts_not_NoArticleFoundError:
  "snd (try_body world_none item_A) = Inl AttributeError
   \<and> snd (try_body world_none item_B) = Inl AttributeError
   \<and> snd (main world_none) = Inl IndexError
   \<and> snd (main world_none) \<noteq> Inl (Exception ''NoArticleFoundError'')"
  by code_simp

text \<open>
  C5. Whenever \<^verbatim>\<open>main\<close> passes a summary \<open>S\<close> to the speech synthesizer, the number of
  playback attempts in the run is 1 if \<^verbatim>\<open>create_audio\<close> succeeds on \<open>S\<close> (the speech
  endpoint answers and the audio is written) and 0 if \<^verbatim>\<open>create_audio\<close> raises.
\<close>

theorem playback_once_after_synthesis:
  assumes "speech_requests (fst (main w)) = [request]"
    and "S = sp_input request"
    and "tts = TTS_init w (OpenAI (OPENAI_API_KEY w)) ''news''"
  shows "length (files_played (fst (main w))) =
           (case snd (TTS_create_audio w tts S) of Inl e \<Rightarrow> 0 | Inr u \<Rightarrow> 1)"
proof -
  from assms(1) obtain t d b response ch rest where
    resolved: "snd (BBCNews_get_headlines w BBCNews_init) = Inr (t, d, b)" and
    answered: "chat_completions_create w (OpenAI (OPENAI_API_KEY w)) (summary_request t d b) = Inr response" and
    chosen: "choices response = ch # rest" and
    request: "request = speech_of (content (message ch))"
    by (rule main_spoken)
  from request assms(2) have S: "S = content (message ch)"
    by (simp add: speech_of_def)
  show ?thesis
    using answered chosen
    by (simp add: main_files_played [OF resolved] after_summary_played assms(3) S
          create_audio_result split: sum.splits)
qed

theorem playback_once_after_synthesis_witness:
  "speech_requests (fst (main world_AB)) =
     [\<lparr>sp_model = ''tts-1'', sp_voice = ''alloy'', sp_input = ''Summary B''\<rparr>]
   \<and> snd (TTS_create_audio world_AB (TTS_init world_AB (OpenAI ''sk-test'') ''news'') ''Summary B'') = Inr ()
   \<and> length (files_played (fst (main world_AB))) = 1
   \<and> speech_requests (fst (main world_mute)) =
     [\<lparr>sp_model = ''tts-1'', sp_voice = ''alloy'', sp_input = ''Summary B''\<rparr>]
   \<and> snd (TTS_create_audio world_mute (TTS_init world_mute (OpenAI ''sk-test'') ''news'') ''Summary B'') =
       Inl (Exception ''openai.APIConnectionError'')
   \<and> length (files_played (fst (main world_mute))) = 0"
proof -
  have passed: "speech_requests (fst (main world_AB)) =
      [\<lparr>sp_model = ''tts-1'', sp_voice = ''alloy'', sp_input = ''Summary B''\<rparr>]"
    by code_simp
  have key: "OPENAI_API_KEY world_AB = ''sk-test''"
    by code_simp
  have made: "snd (TTS_create_audio world_AB (TTS_init world_AB (OpenAI ''sk-test'') ''news'')
      ''Summary B'') = Inr ()"
    by code_simp
  have passed': "speech_requests (fst (main world_mute)) =
      [\<lparr>sp_model = ''tts-1'', sp_voice = ''alloy'', sp_input = ''Summary B''\<rparr>]"
    by code_simp
  have key': "OPENAI_API_KEY world_mute = ''sk-test''"
    by code_simp
  have failed: "snd (TTS_create_audio world_mute (TTS_init world_mute (OpenAI ''sk-test'') ''news'')
      ''Summary B'') = Inl (Exception ''openai.APIConnectionError'')"
    by code_simp
  have "length (files_played (fst (main world_AB))) = 1"
    using playback_once_after_synthesis [OF passed refl refl] made by (simp add: key)
  moreover have "length (files_played (fst (main world_mute))) = 0"
    using playback_once_after_synthesis [OF passed' refl refl] failed by (simp add: key')
  ultimately show ?thesis
    using passed made passed' failed by simp
qed

text \<open>
  C6. With the program installed in \<^verbatim>\<open>/opt/reader\<close>, the audio is written to
  \<^verbatim>\<open>/opt/reader/news.mp3\<close>, and \<^verbatim>\<open>play_audio\<close> passes to \<^verbatim>\<open>playsound\<close> only the last part
  of that path, the bare file name \<^verbatim>\<open>news.mp3\<close>, although its docstring says that it
  plays the file saved at the path.
\<close>

theorem played_name_is_not_written_path:
  "files_written (fst (main world_AB)) = [[''/'', ''opt'', ''reader'', ''news.mp3'']]
   \<and> files_played (fst (main world_AB)) = [''news.mp3'']
   \<and> path (TTS_init world_AB (OpenAI ''sk-test'') ''news'') = [''/'', ''opt'', ''reader'', ''news.mp3'']
   \<and> path_name (path (TTS_init world_AB (OpenAI ''sk-test'') ''news'')) = ''news.mp3''"
  by code_simp

text \<open>
  C7. \<^verbatim>\<open>run_ai\<close> on an \<^verbatim>\<open>AIChat\<close> built by any sequence of \<^verbatim>\<open>add_input\<close> calls sends
  exactly one request, with temperature 0.5 and asking for one completion, whatever the
  messages. Whenever an article is resolved, \<^verbatim>\<open>main\<close> sends exactly one request to the
  completion endpoint, with temperature 0.5 and asking for one completion; when the
  endpoint answers it with a response that has a first choice, the one text passed to
  the speech synthesizer (the summary) is the content of that first choice.
\<close>

theorem one_completion_fixed_temperature:
  assumes "snd (BBCNews_get_headlines w BBCNews_init) = Inr (title, description, body)"
  shows "fst (snd (AIChat_run_ai w (foldl AIChat_add_input (AIChat_init c) ds))) =
           [ChatCompletionsCreate
              \<lparr>rq_model = ''gpt-3.5-turbo'',
               rq_messages = [(''role'', ''system''), (''content'', system_content)] # ds,
               rq_temperature = 0.5,
               rq_n = 1\<rparr>]
       \<and> (\<exists>r. chat_requests (fst (main w)) = [r]
            \<and> rq_temperature r = 0.5 \<and> rq_n r = 1
            \<and> (\<forall>response ch rest.
                  chat_completions_create w (OpenAI (OPENAI_API_KEY w)) r = Inr response
                  \<and> choices response = ch # rest \<longrightarrow>
                  speech_requests (fst (main w)) =
                    [\<lparr>sp_model = ''tts-1'', sp_voice = ''alloy'',
                      sp_input = content (message ch)\<rparr>]))"
proof -
  have sent: "chat_requests (fst (main w)) = [summary_request title description body]"
    by (rule main_chat_requests [OF assms])
  have fixed: "rq_temperature (summary_request title description body) = 0.5"
    "rq_n (summary_request title description body) = 1"
    by (simp_all add: summary_request_def)
  have summary: "speech_requests (fst (main w)) =
      [\<lparr>sp_model = ''tts-1'', sp_voice = ''alloy'', sp_input = content (message ch)\<rparr>]"
    if "chat_completions_create w (OpenAI (OPENAI_API_KEY w))
          (summary_request title description body) = Inr response"
      and "choices response = ch # rest" for response ch rest
    using that
    by (simp add: main_speech_requests [OF assms] after_summary_speech speech_of_def)
  from sent fixed summary have "\<exists>r. chat_requests (fst (main w)) = [r]
      \<and> rq_temperature r = 0.5 \<and> rq_n r = 1
      \<and> (\<forall>response ch rest.
            chat_completions_create w (OpenAI (OPENAI_API_KEY w)) r = Inr response
            \<and> choices response = ch # rest \<longrightarrow>
            speech_requests (fst (main w)) =
              [\<lparr>sp_model = ''tts-1'', sp_voice = ''alloy'',
                sp_input = content (message ch)\<rparr>])"
    by blast
  with run_ai_trace [of w c ds] show ?thesis by (simp only:)
qed

theorem one_completion_fixed_temperature_witness:
  "snd (BBCNews_get_headlines world_AB BBCNews_init) =
     Inr (''Headline A'', ''Desc A'', ''Body text B'')
   \<and> map rq_temperature (chat_requests (fst (main world_AB))) = [0.5]
   \<and> map rq_n (chat_requests (fst (main world_AB))) = [1]
   \<and> chat_completions_create world_AB (OpenAI (OPENAI_API_KEY world_AB))
        (summary_request ''Headline A'' ''Desc A'' ''Body text B'') =
       Inr (ChatCompletion [Choice (ChatCompletionMessage ''Summary B'')])
   \<and> speech_requests (fst (main world_AB)) =
       [\<lparr>sp_model = ''tts-1'', sp_voice = ''alloy'', sp_input = ''Summary B''\<rparr>]"
proof -
  have resolved: "snd (BBCNews_get_headlines world_AB BBCNews_init) =
      Inr (''Headline A'', ''Desc A'', ''Body text B'')"
    by code_simp
  have sent: "chat_requests (fst (main world_AB)) =
      [summary_request ''Headline A'' ''Desc A'' ''Body text B'']"
    by code_simp
  have answered: "chat_completions_create world_AB (OpenAI (OPENAI_API_KEY world_AB))
      (summary_request ''Headline A'' ''Desc A'' ''Body text B'') =
      Inr (ChatCompletion [Choice (ChatCompletionMessage ''Summary B'')])"
    by code_simp
  have chosen: "choices (ChatCompletion [Choice (ChatCompletionMessage ''Summary B'')]) =
      Choice (ChatCompletionMessage ''Summary B'') # []"
    by simp
  from one_completion_fixed_temperature [OF resolved, of "OpenAI ''sk-test''" "[]"]
  obtain r where one: "chat_requests (fst (main world_AB)) = [r]"
    and fixed: "rq_temperature r = 0.5" "rq_n r = 1"
    and summary: "\<And>response ch rest.
      chat_completions_create world_AB (OpenAI (OPENAI_API_KEY world_AB)) r = Inr response
      \<and> choices response = ch # rest \<Longrightarrow>
      speech_requests (fst (main world_AB)) =
        [\<lparr>sp_model = ''tts-1'', sp_voice = ''alloy'', sp_input = content (message ch)\<rparr>]"
    by blast
  from one sent have r: "r = summary_request ''Headline A'' ''Desc A'' ''Body text B''"
    by simp
  have spoken: "speech_requests (fst (main world_AB)) =
      [\<lparr>sp_model = ''tts-1'', sp_voice = ''alloy'', sp_input = ''Summary B''\<rparr>]"
    using summary [of "ChatCompletion [Choice (ChatCompletionMessage ''Summary B'')]"
        "Choice (ChatCompletionMessage ''Summary B'')" "[]"] answered chosen
    by (simp add: r)
  from one fixed have "map rq_temperature (chat_requests (fst (main world_AB))) = [0.5]"
    "map rq_n (chat_requests (fst (main world_AB))) = [1]"
    by simp_all
  with resolved answered spoken show ?thesis by (simp only:)
qed





text \<open>
  C10. \<^verbatim>\<open>add_input\<close> appends its argument at the end of the conversation and leaves
  what was there unchanged. Hence after any sequence of \<^verbatim>\<open>add_input\<close> calls on a new
  \<^verbatim>\<open>AIChat\<close> the conversation is the system message followed by the arguments, its
  length is one more than the number of calls and its first element is the system
  message. \<^verbatim>\<open>run_ai\<close> leaves the object as it was.
\<close>

theorem add_input_appends:
  "inputs (AIChat_add_input a d) = inputs a @ [d]
   \<and> inputs (foldl AIChat_add_input (AIChat_init c) ds) =
       [(''role'', ''system''), (''content'', system_content)] # ds
   \<and> length (inputs (foldl AIChat_add_input (AIChat_init c) ds)) = 1 + length ds
   \<and> hd (inputs (foldl AIChat_add_input (AIChat_init c) ds)) =
       [(''role'', ''system''), (''content'', system_content)]
   \<and> fst (AIChat_run_ai w a) = a"
  by (simp add: foldl_add_input AIChat_add_input_def AIChat_init_def AIChat_run_ai_def Let_def)

end
